theory Spec2Isabelle
  imports Complex_Main
begin

section \<open>Numeric vectors\<close>

text \<open>
  The program (\<^verbatim>\<open>chap4/mav_dynamics.py\<close>) computes with numpy column vectors of floats.
  A vector is modelled as a list of reals and a matrix as a list of rows. Floating-point
  rounding, infinities and NaN are outside the model: arithmetic is the arithmetic of the
  reals, and a quotient whose divisor is zero (numpy: a non-finite value) is HOL's \<open>0\<close>.
  Statements that depend on such a quotient carry the hypothesis that the divisor is
  nonzero; \<open>update_result\<close> below is \<^verbatim>\<open>update\<close> with the zero divisors of the airspeed and
  of the quaternion norm as a failure.
\<close>

type_synonym vec = "real list"
type_synonym mat = "real list list"

definition vadd :: "vec \<Rightarrow> vec \<Rightarrow> vec" where
  "vadd xs ys = map2 (+) xs ys"

definition vsub :: "vec \<Rightarrow> vec \<Rightarrow> vec" where
  "vsub xs ys = map2 (-) xs ys"

definition smul :: "real \<Rightarrow> vec \<Rightarrow> vec" where
  "smul a xs = map ((*) a) xs"

definition dot :: "vec \<Rightarrow> vec \<Rightarrow> real" where
  "dot xs ys = sum_list (map2 (*) xs ys)"

definition matvec :: "mat \<Rightarrow> vec \<Rightarrow> vec" where
  \<comment> \<open>\<^verbatim>\<open>A @ x\<close>\<close>
  "matvec A x = map (\<lambda>row. dot row x) A"

definition linalg_norm :: "vec \<Rightarrow> real" where
  \<comment> \<open>\<^verbatim>\<open>np.linalg.norm\<close>\<close>
  "linalg_norm xs = sqrt (sum_list (map (\<lambda>x. x\<^sup>2) xs))"

definition slice :: "nat \<Rightarrow> nat \<Rightarrow> 'a list \<Rightarrow> 'a list" where
  \<comment> \<open>\<^verbatim>\<open>xs[i:j]\<close>\<close>
  "slice i j xs = take (j - i) (drop i xs)"

definition arctan2 :: "real \<Rightarrow> real \<Rightarrow> real" where
  \<comment> \<open>\<^verbatim>\<open>np.arctan2(y, x)\<close> on finite arguments\<close>
  "arctan2 y x =
     (if 0 < x then arctan (y / x)
      else if x < 0 then (if 0 \<le> y then arctan (y / x) + pi else arctan (y / x) - pi)
      else if 0 < y then pi / 2
      else if y < 0 then - pi / 2
      else 0)"

section \<open>The modules the program imports\<close>

text \<open>
  \<^verbatim>\<open>parameters.aerosonde_parameters\<close> (imported as \<^verbatim>\<open>MAV\<close>) is a table of constants.
  The table itself is not part of the sources, so it is a parameter of every function
  that reads it: a record with one field for each constant the program uses.
\<close>

record MAV =
  MAV_north0 :: real
  MAV_east0 :: real
  MAV_down0 :: real
  MAV_u0 :: real
  MAV_v0 :: real
  MAV_w0 :: real
  MAV_e0 :: real
  MAV_e1 :: real
  MAV_e2 :: real
  MAV_e3 :: real
  MAV_p0 :: real
  MAV_q0 :: real
  MAV_r0 :: real
  MAV_mass :: real
  MAV_gamma1 :: real
  MAV_gamma2 :: real
  MAV_gamma3 :: real
  MAV_gamma4 :: real
  MAV_gamma5 :: real
  MAV_gamma6 :: real
  MAV_gamma7 :: real
  MAV_gamma8 :: real
  MAV_Jy :: real
  MAV_M :: real
  MAV_alpha0 :: real
  MAV_gravity :: real
  MAV_C_L_0 :: real
  MAV_C_L_alpha :: real
  MAV_C_D_p :: real
  MAV_e :: real
  MAV_AR :: real
  MAV_rho :: real
  MAV_S_wing :: real
  MAV_C_L_q :: real
  MAV_c :: real
  MAV_C_L_delta_e :: real
  MAV_C_D_q :: real
  MAV_C_D_delta_e :: real
  MAV_C_Y_0 :: real
  MAV_C_Y_beta :: real
  MAV_C_Y_p :: real
  MAV_b :: real
  MAV_C_Y_r :: real
  MAV_C_Y_delta_a :: real
  MAV_C_Y_delta_r :: real
  MAV_C_m_0 :: real
  MAV_C_m_alpha :: real
  MAV_C_m_q :: real
  MAV_C_m_delta_e :: real
  MAV_C_ell_0 :: real
  MAV_C_ell_beta :: real
  MAV_C_ell_p :: real
  MAV_C_ell_delta_a :: real
  MAV_C_ell_delta_r :: real
  MAV_C_n_0 :: real
  MAV_C_n_beta :: real
  MAV_C_n_p :: real
  MAV_C_n_delta_a :: real
  MAV_C_n_delta_r :: real
  MAV_V_max :: real
  MAV_C_Q0 :: real
  MAV_C_Q1 :: real
  MAV_C_Q2 :: real
  MAV_D_prop :: real
  MAV_KQ :: real
  MAV_R_motor :: real
  MAV_i0 :: real
  MAV_C_T0 :: real
  MAV_C_T1 :: real
  MAV_C_T2 :: real

text \<open>
  \<^verbatim>\<open>tools.rotations\<close> is not part of the sources either. Its two functions that the class
  calls are parameters as well.
\<close>

record rotations =
  Quaternion2Rotation :: "vec \<Rightarrow> mat"
  Quaternion2Euler :: "vec \<Rightarrow> real \<times> real \<times> real"

text \<open>
  \<^verbatim>\<open>message_types.msg_state.MsgState\<close>: the fields that \<^verbatim>\<open>_update_true_state\<close> assigns.
  The value \<^verbatim>\<open>MsgState()\<close> that the constructor stores is a parameter of \<open>init\<close>.
\<close>

record MsgState =
  msg_north :: real
  msg_east :: real
  msg_altitude :: real
  msg_Va :: real
  msg_alpha :: real
  msg_beta :: real
  msg_phi :: real
  msg_theta :: real
  msg_psi :: real
  msg_Vg :: real
  msg_gamma :: real
  msg_chi :: real
  msg_p :: real
  msg_q :: real
  msg_r :: real
  msg_wn :: real
  msg_we :: real

text \<open>The control input \<^verbatim>\<open>delta\<close>, read through its four attributes.\<close>

record MsgDelta =
  aileron :: real
  elevator :: real
  rudder :: real
  throttle :: real

section \<open>The class \<^verbatim>\<open>MavDynamics\<close>\<close>

record MavDynamics =
  self_ts_simulation :: real
  self_state :: vec
  self_wind :: vec
  self_forces :: vec
  self_Va :: real
  self_alpha :: real
  self_beta :: real
  self_true_state :: MsgState

definition derivatives :: "MAV \<Rightarrow> rotations \<Rightarrow> vec \<Rightarrow> vec \<Rightarrow> vec" where
  "derivatives P T state forces_moments =
     (let u = state ! 3;
          v = state ! 4;
          w = state ! 5;
          e0 = state ! 6;
          e1 = state ! 7;
          e2 = state ! 8;
          e3 = state ! 9;
          p = state ! 10;
          q = state ! 11;
          r = state ! 12;
          fx = forces_moments ! 0;
          fy = forces_moments ! 1;
          fz = forces_moments ! 2;
          l = forces_moments ! 3;
          m = forces_moments ! 4;
          n = forces_moments ! 5;
          quaternion = [e0, e1, e2, e3];
          Rb_i = Quaternion2Rotation T quaternion;
          pos_dot = matvec Rb_i [u, v, w];
          north_dot = pos_dot ! 0;
          east_dot = pos_dot ! 1;
          down_dot = pos_dot ! 2;
          u_dot = (r * v - q * w) + (1 / MAV_mass P) * fx;
          v_dot = (p * w - r * u) + (1 / MAV_mass P) * fy;
          w_dot = (q * u - p * v) + (1 / MAV_mass P) * fz;
          skew_sym = [[0, - p, - q, - r],
                      [p, 0, r, - q],
                      [q, - r, 0, p],
                      [r, q, - p, 0]];
          e_dot = matvec (map (smul 0.5) skew_sym) quaternion;
          e0_dot = e_dot ! 0;
          e1_dot = e_dot ! 1;
          e2_dot = e_dot ! 2;
          e3_dot = e_dot ! 3;
          p_dot = MAV_gamma1 P * p * q - MAV_gamma2 P * q * r + MAV_gamma3 P * l
                    + MAV_gamma4 P * n;
          q_dot = MAV_gamma5 P * p * r - MAV_gamma6 P * (p\<^sup>2 - r\<^sup>2) + (1 / MAV_Jy P) * m;
          r_dot = MAV_gamma7 P * p * q - MAV_gamma1 P * q * r + MAV_gamma4 P * l
                    + MAV_gamma8 P * n
      in [north_dot, east_dot, down_dot, u_dot, v_dot, w_dot,
          e0_dot, e1_dot, e2_dot, e3_dot, p_dot, q_dot, r_dot])"

text \<open>
  Two parts of the body of \<^verbatim>\<open>update\<close>: the Runge-Kutta step (the lines under
  ``Integrate ODE'') and the normalisation of the quaternion. The method itself, which
  runs them between \<^verbatim>\<open>_forces_moments\<close> and \<^verbatim>\<open>_update_velocity_data\<close>, follows below.
\<close>

definition integrate :: "MAV \<Rightarrow> rotations \<Rightarrow> MavDynamics \<Rightarrow> vec \<Rightarrow> MavDynamics" where
  "integrate P T self forces_moments =
     (let time_step = self_ts_simulation self;
          k1 = derivatives P T (self_state self) forces_moments;
          k2 = derivatives P T (vadd (self_state self) (smul (time_step / 2) k1))
                 forces_moments;
          k3 = derivatives P T (vadd (self_state self) (smul (time_step / 2) k2))
                 forces_moments;
          k4 = derivatives P T (vadd (self_state self) (smul time_step k3)) forces_moments
      in self\<lparr>self_state :=
           vadd (self_state self)
             (smul (time_step / 6) (vadd (vadd (vadd k1 (smul 2 k2)) (smul 2 k3)) k4))\<rparr>)"

definition normalize_quaternion :: "MavDynamics \<Rightarrow> MavDynamics" where
  "normalize_quaternion self =
     (let e0 = self_state self ! 6;
          e1 = self_state self ! 7;
          e2 = self_state self ! 8;
          e3 = self_state self ! 9;
          normE = sqrt (e0\<^sup>2 + e1\<^sup>2 + e2\<^sup>2 + e3\<^sup>2);
          s6 = (self_state self)[6 := self_state self ! 6 / normE];
          s7 = s6[7 := s6 ! 7 / normE];
          s8 = s7[8 := s7 ! 8 / normE];
          s9 = s8[9 := s8 ! 9 / normE]
      in self\<lparr>self_state := s9\<rparr>)"

definition update_velocity_data :: "rotations \<Rightarrow> MavDynamics \<Rightarrow> vec \<Rightarrow> MavDynamics" where
  "update_velocity_data T self wind =
     (let steady_state = slice 0 3 wind;
          gust = slice 3 6 wind;
          Rb_i = Quaternion2Rotation T (slice 6 10 (self_state self));
          wind_body_frame = vadd (matvec Rb_i steady_state) gust;
          v_air = vsub (slice 3 6 (self_state self)) wind_body_frame;
          ur = v_air ! 0;
          vr = v_air ! 1;
          wr = v_air ! 2;
          Va = linalg_norm v_air;
          alpha = (if ur = 0 then 0 else arctan (wr / ur));
          beta = (if Va = 0 then 0 else arcsin (vr / Va))
      in self\<lparr>self_Va := Va, self_alpha := alpha, self_beta := beta\<rparr>)"

definition motor_thrust_torque :: "MAV \<Rightarrow> real \<Rightarrow> real \<Rightarrow> real \<times> real" where
  "motor_thrust_torque P Va delta_t =
     (let V_in = MAV_V_max P * delta_t;
          a = MAV_C_Q0 P * MAV_rho P * (MAV_D_prop P) ^ 5 / ((2 * pi)\<^sup>2);
          b = (MAV_C_Q1 P * MAV_rho P * (MAV_D_prop P) ^ 4 * Va / ((2 * pi)\<^sup>2))
                + (MAV_KQ P)\<^sup>2 / MAV_R_motor P;
          c = (MAV_C_Q2 P * MAV_rho P * (MAV_D_prop P) ^ 3 * Va\<^sup>2)
                - (MAV_KQ P / MAV_R_motor P) + MAV_KQ P * MAV_i0 P;
          Omega_op = (- b + sqrt (b\<^sup>2 - 4 * a * c)) / (2 * a);
          J_op = 2 * pi * Va / (Omega_op * MAV_D_prop P);
          C_T = MAV_C_T2 P * J_op\<^sup>2 + MAV_C_T1 P * J_op + MAV_C_T0 P;
          C_Q = MAV_C_Q2 P * J_op\<^sup>2 + MAV_C_Q1 P * J_op + MAV_C_Q0 P;
          n = Omega_op / (2 * pi);
          thrust_prop = MAV_rho P * n\<^sup>2 * (MAV_D_prop P) ^ 4 * C_T;
          torque_prop = MAV_rho P * n\<^sup>2 * (MAV_D_prop P) ^ 5 * C_Q
      in (thrust_prop, torque_prop))"

text \<open>
  \<^verbatim>\<open>_forces_moments\<close>. Its local quantities are definitions of their own, named as in the
  source, so that statements about them can be written down; \<open>forces_moments\<close> assembles
  them in the order of the source. It returns the six-element vector and the object with
  \<^verbatim>\<open>_forces\<close> overwritten.
\<close>

definition sigma :: "MAV \<Rightarrow> MavDynamics \<Rightarrow> real" where
  "sigma P self =
     (let sigma_num = 1 + exp (- MAV_M P * (self_alpha self - MAV_alpha0 P))
                        + exp (MAV_M P * (self_alpha self + MAV_alpha0 P));
          sigma_denom = (1 + exp (- MAV_M P * (self_alpha self - MAV_alpha0 P)))
                        * (1 + exp (MAV_M P * (self_alpha self + MAV_alpha0 P)))
      in sigma_num / sigma_denom)"

definition f_g :: "MAV \<Rightarrow> rotations \<Rightarrow> MavDynamics \<Rightarrow> mat" where
  \<comment> \<open>\<^verbatim>\<open>Rb_i*np.array([[0],[0],[MAV.mass*MAV.gravity]])\<close>: the elementwise product, which
      broadcasts the column over the rows of \<^verbatim>\<open>Rb_i\<close>\<close>
  "f_g P T self =
     (let Rb_i = Quaternion2Rotation T (slice 6 10 (self_state self))
      in map2 (\<lambda>row g. smul g row) Rb_i [0, 0, MAV_mass P * MAV_gravity P])"

definition CL :: "MAV \<Rightarrow> MavDynamics \<Rightarrow> real" where
  "CL P self =
     ((1 - sigma P self) * (MAV_C_L_0 P + MAV_C_L_alpha P * self_alpha self))
     + (sigma P self * 2 * sgn (self_alpha self) * (sin (self_alpha self))\<^sup>2
          * cos (self_alpha self))"

definition CD :: "MAV \<Rightarrow> MavDynamics \<Rightarrow> real" where
  "CD P self =
     MAV_C_D_p P
     + ((MAV_C_L_0 P + MAV_C_L_alpha P * self_alpha self)\<^sup>2) / (pi * MAV_e P * MAV_AR P)"

definition q_dynamic :: "MAV \<Rightarrow> MavDynamics \<Rightarrow> real" where
  "q_dynamic P self = 0.5 * MAV_rho P * ((self_Va self)\<^sup>2) * MAV_S_wing P"

definition F_lift :: "MAV \<Rightarrow> MavDynamics \<Rightarrow> MsgDelta \<Rightarrow> real" where
  "F_lift P self delta =
     (let q = self_state self ! 11
      in q_dynamic P self
           * (CL P self * (MAV_C_L_q P * 0.5 * MAV_c P / self_Va self * q)
              + MAV_C_L_delta_e P * elevator delta))"

definition F_drag :: "MAV \<Rightarrow> MavDynamics \<Rightarrow> MsgDelta \<Rightarrow> real" where
  "F_drag P self delta =
     (let q = self_state self ! 11
      in q_dynamic P self
           * (CD P self * (MAV_C_D_q P * 0.5 * MAV_c P / self_Va self * q)
              + MAV_C_D_delta_e P * elevator delta))"

definition forces_moments ::
  "MAV \<Rightarrow> rotations \<Rightarrow> MavDynamics \<Rightarrow> MsgDelta \<Rightarrow> vec \<times> MavDynamics" where
  "forces_moments P T self delta =
     (let (phi, theta, psi) = Quaternion2Euler T (slice 6 10 (self_state self));
          p = self_state self ! 10;
          q = self_state self ! 11;
          r = self_state self ! 12;
          sigma = sigma P self;
          f_g = f_g P T self;
          CL = CL P self;
          CD = CD P self;
          q_dynamic = q_dynamic P self;
          F_lift = F_lift P self delta;
          F_drag = F_drag P self delta;
          (thrust_prop, torque_prop) = motor_thrust_torque P (self_Va self) (throttle delta);
          fx = - F_drag * cos (self_alpha self) + F_lift * sin (self_alpha self);
          fz = - F_drag * sin (self_alpha self) - F_lift * cos (self_alpha self);
          fy = q_dynamic * (MAV_C_Y_0 P + MAV_C_Y_beta P * self_beta self
                 + MAV_C_Y_p P * 0.5 * MAV_b P * p / self_Va self
                 + MAV_C_Y_r P * 0.5 * MAV_b P * r / self_Va self
                 + MAV_C_Y_delta_a P * aileron delta + MAV_C_Y_delta_r P * rudder delta);
          My = q_dynamic * MAV_c P * (MAV_C_m_0 P + (MAV_C_m_alpha P * self_alpha self)
                 + (MAV_C_m_q P * MAV_c P * 0.5 * q / self_Va self)
                 + (MAV_C_m_delta_e P * elevator delta));
          Mx = q_dynamic * MAV_b P * (MAV_C_ell_0 P + MAV_C_ell_beta P * self_beta self
                 + MAV_C_ell_p P * 0.5 * MAV_b P * r / self_Va self
                 + MAV_C_ell_delta_a P * aileron delta + MAV_C_ell_delta_r P * rudder delta);
          Mz = q_dynamic * MAV_b P * (MAV_C_n_0 P + MAV_C_n_beta P * self_beta self
                 + MAV_C_n_p P * 0.5 * MAV_b P * r / self_Va self
                 + MAV_C_n_delta_a P * aileron delta + MAV_C_n_delta_r P * rudder delta)
      in ([fx, fy, fz, Mx, My, Mz],
          self\<lparr>self_forces := (self_forces self)[0 := fx, 1 := fy, 2 := fz]\<rparr>))"

definition update_true_state :: "rotations \<Rightarrow> MavDynamics \<Rightarrow> MavDynamics" where
  "update_true_state T self =
     (let (phi, theta, psi) = Quaternion2Euler T (slice 6 10 (self_state self));
          pdot = matvec (Quaternion2Rotation T (slice 6 10 (self_state self)))
                   (slice 3 6 (self_state self));
          Vg = linalg_norm pdot
      in self\<lparr>self_true_state := (self_true_state self)
           \<lparr>msg_north := self_state self ! 0,
            msg_east := self_state self ! 1,
            msg_altitude := - (self_state self ! 2),
            msg_Va := self_Va self,
            msg_alpha := self_alpha self,
            msg_beta := self_beta self,
            msg_phi := phi,
            msg_theta := theta,
            msg_psi := psi,
            msg_Vg := Vg,
            msg_gamma := arcsin (pdot ! 2 / Vg),
            msg_chi := arctan2 (pdot ! 1) (pdot ! 0),
            msg_p := self_state self ! 10,
            msg_q := self_state self ! 11,
            msg_r := self_state self ! 12,
            msg_wn := self_wind self ! 0,
            msg_we := self_wind self ! 1\<rparr>\<rparr>)"

definition update :: "MAV \<Rightarrow> rotations \<Rightarrow> MavDynamics \<Rightarrow> MsgDelta \<Rightarrow> vec \<Rightarrow> MavDynamics" where
  "update P T self delta wind =
     (let (forces_moments, self1) = forces_moments P T self delta;
          self2 = integrate P T self1 forces_moments;
          self3 = normalize_quaternion self2;
          self4 = update_velocity_data T self3 wind
      in update_true_state T self4)"

definition external_set_state :: "MavDynamics \<Rightarrow> vec \<Rightarrow> MavDynamics" where
  "external_set_state self new_state = self\<lparr>self_state := new_state\<rparr>"

text \<open>
  The constructor. The assignments are made in the order of the source: the air data
  that \<^verbatim>\<open>_update_velocity_data()\<close> computes (with its default wind, six zeros) are
  overwritten by the three assignments that follow it. \<open>msg\<close> is \<^verbatim>\<open>MsgState()\<close>.
\<close>

definition init :: "MAV \<Rightarrow> rotations \<Rightarrow> MsgState \<Rightarrow> real \<Rightarrow> MavDynamics" where
  "init P T msg Ts =
     (let self0 = \<lparr>self_ts_simulation = Ts,
                   self_state = [MAV_north0 P, MAV_east0 P, MAV_down0 P,
                                 MAV_u0 P, MAV_v0 P, MAV_w0 P,
                                 MAV_e0 P, MAV_e1 P, MAV_e2 P, MAV_e3 P,
                                 MAV_p0 P, MAV_q0 P, MAV_r0 P],
                   self_wind = [0, 0, 0],
                   self_forces = [0, 0, 0],
                   self_Va = 0,
                   self_alpha = 0,
                   self_beta = 0,
                   self_true_state = msg\<rparr>;
          self1 = update_velocity_data T self0 [0, 0, 0, 0, 0, 0]
      in self1\<lparr>self_forces := [0, 0, 0],
               self_Va := MAV_u0 P,
               self_alpha := 0,
               self_beta := 0,
               self_true_state := msg\<rparr>)"

text \<open>A sequence of calls of \<^verbatim>\<open>update\<close>, each with its control input and its wind.\<close>

fun run :: "MAV \<Rightarrow> rotations \<Rightarrow> MavDynamics \<Rightarrow> (MsgDelta \<times> vec) list \<Rightarrow> MavDynamics" where
  "run P T self [] = self"
| "run P T self ((delta, wind) # calls) = run P T (update P T self delta wind) calls"

text \<open>
  Where a divisor is zero. \<^verbatim>\<open>_forces_moments\<close> divides by \<^verbatim>\<open>_Va\<close> in the lift, the drag, the
  side force and the three moments, and \<^verbatim>\<open>update\<close> divides by the norm of the quaternion.
  With \<^verbatim>\<open>_Va\<close> zero the source raises \<^verbatim>\<open>ZeroDivisionError\<close> (a Python zero, as the
  constructor may store) or computes NaN in all six entries of the vector (a numpy zero,
  as \<^verbatim>\<open>_update_velocity_data\<close> stores), and the NaN moments reach the quaternion in the
  second stage of the Runge-Kutta step; with the norm zero the normalisation stores NaN.
  \<open>forces_moments\<close> and \<open>update\<close> above are the arithmetic of the source on the reals and
  have HOL's value there, which is not the program's. The following definitions are the
  same functions with these failures as a value: \<open>None\<close> where the call raises or leaves a
  quaternion that is not a number, and otherwise what \<open>forces_moments\<close> and \<open>update\<close>
  compute. A sequence of calls has a result when each of its calls has one. (The
  constants of the table that the source divides by are those of an aircraft and nonzero.)
\<close>

definition forces_moments_result ::
  "MAV \<Rightarrow> rotations \<Rightarrow> MavDynamics \<Rightarrow> MsgDelta \<Rightarrow> (vec \<times> MavDynamics) option" where
  "forces_moments_result P T self delta =
     (if self_Va self = 0 then None else Some (forces_moments P T self delta))"

definition update_result ::
  "MAV \<Rightarrow> rotations \<Rightarrow> MavDynamics \<Rightarrow> MsgDelta \<Rightarrow> vec \<Rightarrow> MavDynamics option" where
  "update_result P T self delta wind =
     (case forces_moments_result P T self delta of
        None \<Rightarrow> None
      | Some (fm, self1) \<Rightarrow>
          (let self2 = integrate P T self1 fm;
               e0 = self_state self2 ! 6;
               e1 = self_state self2 ! 7;
               e2 = self_state self2 ! 8;
               e3 = self_state self2 ! 9;
               normE = sqrt (e0\<^sup>2 + e1\<^sup>2 + e2\<^sup>2 + e3\<^sup>2)
           in if normE = 0 then None
              else Some (update_true_state T
                           (update_velocity_data T (normalize_quaternion self2) wind))))"

fun run_result ::
  "MAV \<Rightarrow> rotations \<Rightarrow> MavDynamics \<Rightarrow> (MsgDelta \<times> vec) list \<Rightarrow> MavDynamics option" where
  "run_result P T self [] = Some self"
| "run_result P T self ((delta, wind) # calls) =
     (case update_result P T self delta wind of
        None \<Rightarrow> None
      | Some self' \<Rightarrow> run_result P T self' calls)"

section \<open>Values for the closed examples\<close>

text \<open>
  Modelled from the spec: \<^verbatim>\<open>tools.rotations\<close> is missing from the sources, and the spec
  (section 6) asks of \<^verbatim>\<open>quaternionToRotationMatrix\<close> an orthonormal 3x3 matrix and of
  \<^verbatim>\<open>quaternionToEuler\<close> the three Euler angles. These are the usual formulas for a
  scalar-first unit quaternion. They instantiate the closed examples only; every general
  statement below is about an arbitrary \<open>T\<close>.
\<close>

definition Quaternion2Rotation_example :: "vec \<Rightarrow> mat" where
  "Quaternion2Rotation_example quaternion =
     (let e0 = quaternion ! 0; e1 = quaternion ! 1; e2 = quaternion ! 2; e3 = quaternion ! 3
      in [[e1\<^sup>2 + e0\<^sup>2 - e2\<^sup>2 - e3\<^sup>2, 2 * (e1 * e2 - e3 * e0), 2 * (e1 * e3 + e2 * e0)],
          [2 * (e1 * e2 + e3 * e0), e2\<^sup>2 + e0\<^sup>2 - e1\<^sup>2 - e3\<^sup>2, 2 * (e2 * e3 - e1 * e0)],
          [2 * (e1 * e3 - e2 * e0), 2 * (e2 * e3 + e1 * e0), e3\<^sup>2 + e0\<^sup>2 - e1\<^sup>2 - e2\<^sup>2]])"

definition Quaternion2Euler_example :: "vec \<Rightarrow> real \<times> real \<times> real" where
  "Quaternion2Euler_example quaternion =
     (let e0 = quaternion ! 0; e1 = quaternion ! 1; e2 = quaternion ! 2; e3 = quaternion ! 3
      in (arctan2 (2 * (e0 * e1 + e2 * e3)) (e0\<^sup>2 + e3\<^sup>2 - e1\<^sup>2 - e2\<^sup>2),
          arcsin (2 * (e0 * e2 - e1 * e3)),
          arctan2 (2 * (e0 * e3 + e1 * e2)) (e0\<^sup>2 + e1\<^sup>2 - e2\<^sup>2 - e3\<^sup>2)))"

definition rotations_example :: rotations where
  "rotations_example =
     \<lparr>Quaternion2Rotation = Quaternion2Rotation_example,
      Quaternion2Euler = Quaternion2Euler_example\<rparr>"

text \<open>
  A parameter table for the closed examples: level flight at 25 m/s, with constants of
  the order of those of a small fixed-wing aircraft. The values are the examples' own.
\<close>

definition MAV_example :: MAV where
  "MAV_example =
     \<lparr>MAV_north0 = 0, MAV_east0 = 0, MAV_down0 = - 100,
      MAV_u0 = 25, MAV_v0 = 0, MAV_w0 = 0,
      MAV_e0 = 1, MAV_e1 = 0, MAV_e2 = 0, MAV_e3 = 0,
      MAV_p0 = 0, MAV_q0 = 0, MAV_r0 = 0,
      MAV_mass = 11,
      MAV_gamma1 = 0.1211, MAV_gamma2 = 0.7749, MAV_gamma3 = 1.2258, MAV_gamma4 = 0.0836,
      MAV_gamma5 = 0.8238, MAV_gamma6 = 0.1057, MAV_gamma7 = - 0.1685, MAV_gamma8 = 0.5742,
      MAV_Jy = 1.135,
      MAV_M = 50, MAV_alpha0 = 0.47, MAV_gravity = 9.81,
      MAV_C_L_0 = 0.23, MAV_C_L_alpha = 5.61, MAV_C_D_p = 0.043,
      MAV_e = 0.9, MAV_AR = 15.29, MAV_rho = 1.2682, MAV_S_wing = 0.55,
      MAV_C_L_q = 7.95, MAV_c = 0.19, MAV_C_L_delta_e = 0.13,
      MAV_C_D_q = 0, MAV_C_D_delta_e = 0.0135,
      MAV_C_Y_0 = 0, MAV_C_Y_beta = - 0.98, MAV_C_Y_p = 0, MAV_b = 2.9, MAV_C_Y_r = 0,
      MAV_C_Y_delta_a = 0.075, MAV_C_Y_delta_r = 0.19,
      MAV_C_m_0 = 0.0135, MAV_C_m_alpha = - 2.74, MAV_C_m_q = - 38.21,
      MAV_C_m_delta_e = - 0.99,
      MAV_C_ell_0 = 0, MAV_C_ell_beta = - 0.13, MAV_C_ell_p = - 0.51,
      MAV_C_ell_delta_a = 0.17, MAV_C_ell_delta_r = 0.0024,
      MAV_C_n_0 = 0, MAV_C_n_beta = 0.073, MAV_C_n_p = 0.069,
      MAV_C_n_delta_a = - 0.011, MAV_C_n_delta_r = - 0.069,
      MAV_V_max = 44.4, MAV_C_Q0 = 0.00523, MAV_C_Q1 = 0.00497, MAV_C_Q2 = - 0.01664,
      MAV_D_prop = 0.508, MAV_KQ = 0.0659, MAV_R_motor = 0.042, MAV_i0 = 1.5,
      MAV_C_T0 = 0.09357, MAV_C_T1 = - 0.06044, MAV_C_T2 = - 0.1079\<rparr>"

definition MsgState_example :: MsgState where
  "MsgState_example =
     \<lparr>msg_north = 0, msg_east = 0, msg_altitude = 0, msg_Va = 0, msg_alpha = 0,
      msg_beta = 0, msg_phi = 0, msg_theta = 0, msg_psi = 0, msg_Vg = 0, msg_gamma = 0,
      msg_chi = 0, msg_p = 0, msg_q = 0, msg_r = 0, msg_wn = 0, msg_we = 0\<rparr>"

definition mav_example :: MavDynamics where
  "mav_example = init MAV_example rotations_example MsgState_example 0.01"

definition delta_example :: MsgDelta where
  "delta_example = \<lparr>aileron = 0, elevator = 0, rudder = 0, throttle = 0.5\<rparr>"

text \<open>
  The aircraft at rest: the object of the example after \<^verbatim>\<open>external_set_state\<close> with zero body
  velocity and the zero attitude, as the first scenario of the script at the end of the
  source sets it.
\<close>

definition mav_rest :: MavDynamics where
  "mav_rest = external_set_state mav_example [0, 0, - 100, 0, 0, 0, 1, 0, 0, 0, 0, 0, 0]"

section \<open>Vectors and the parts of \<^verbatim>\<open>update\<close>\<close>

lemma length_derivatives: "length (derivatives P T st fm) = 13"
  by (simp add: derivatives_def Let_def)

lemma length_vadd: "length (vadd xs ys) = min (length xs) (length ys)"
  by (simp add: vadd_def)

lemma length_smul: "length (smul a xs) = length xs"
  by (simp add: smul_def)

lemma nth_vadd: "i < length xs \<Longrightarrow> i < length ys \<Longrightarrow> vadd xs ys ! i = xs ! i + ys ! i"
  by (simp add: vadd_def)

lemma nth_smul: "i < length xs \<Longrightarrow> smul a xs ! i = a * xs ! i"
  by (simp add: smul_def)

lemma slice_6_10: "10 \<le> length xs \<Longrightarrow> slice 6 10 xs = [xs ! 6, xs ! 7, xs ! 8, xs ! 9]"
  by (auto simp add: slice_def list_eq_iff_nth_eq nth_Cons split: nat.splits)

lemma slice_3_6: "6 \<le> length xs \<Longrightarrow> slice 3 6 xs = [xs ! 3, xs ! 4, xs ! 5]"
  by (auto simp add: slice_def list_eq_iff_nth_eq nth_Cons split: nat.splits)

lemma slice_0_3: "3 \<le> length xs \<Longrightarrow> slice 0 3 xs = [xs ! 0, xs ! 1, xs ! 2]"
  by (auto simp add: slice_def list_eq_iff_nth_eq nth_Cons numeral_2_eq_2 split: nat.splits)

lemma integrate_state_nth:
  assumes "length (self_state self) = 13" "i < 13"
  shows "self_state (integrate P T self fm) ! i =
     (let dt = self_ts_simulation self; st = self_state self;
          k1 = derivatives P T st fm;
          k2 = derivatives P T (vadd st (smul (dt / 2) k1)) fm;
          k3 = derivatives P T (vadd st (smul (dt / 2) k2)) fm;
          k4 = derivatives P T (vadd st (smul dt k3)) fm
      in st ! i + dt / 6 * (k1 ! i + 2 * k2 ! i + 2 * k3 ! i + k4 ! i))"
  using assms
  by (simp add: integrate_def Let_def nth_vadd nth_smul length_vadd length_smul length_derivatives)

lemma length_integrate: "length (self_state self) = 13 \<Longrightarrow> length (self_state (integrate P T self fm)) = 13"
  by (simp add: integrate_def Let_def length_vadd length_smul length_derivatives)

lemma normalize_state:
  "self_state (normalize_quaternion self) =
    (let st = self_state self; normE = sqrt ((st ! 6)\<^sup>2 + (st ! 7)\<^sup>2 + (st ! 8)\<^sup>2 + (st ! 9)\<^sup>2)
     in st[6 := st ! 6 / normE, 7 := st ! 7 / normE, 8 := st ! 8 / normE, 9 := st ! 9 / normE])"
  by (simp add: normalize_quaternion_def Let_def)

lemma norm4: "n = sqrt (a\<^sup>2 + b\<^sup>2 + c\<^sup>2 + d\<^sup>2) \<Longrightarrow> n \<noteq> 0 \<Longrightarrow>
   linalg_norm [a / n, b / n, c / n, d / n] = 1"
proof -
  assume n: "n = sqrt (a\<^sup>2 + b\<^sup>2 + c\<^sup>2 + d\<^sup>2)" and nz: "n \<noteq> 0"
  have nn: "n\<^sup>2 = a\<^sup>2 + b\<^sup>2 + c\<^sup>2 + d\<^sup>2" unfolding n by simp
  have "(a / n)\<^sup>2 + (b / n)\<^sup>2 + (c / n)\<^sup>2 + (d / n)\<^sup>2 = (a\<^sup>2 + b\<^sup>2 + c\<^sup>2 + d\<^sup>2) / n\<^sup>2"
    by (simp add: power_divide add_divide_distrib)
  also have "\<dots> = n\<^sup>2 / n\<^sup>2" by (simp only: nn)
  also have "\<dots> = 1" using nz by simp
  finally show ?thesis by (simp add: linalg_norm_def)
qed

lemma normalize_unit:
  assumes "length (self_state self) = 13"
    and "sqrt ((self_state self ! 6)\<^sup>2 + (self_state self ! 7)\<^sup>2 + (self_state self ! 8)\<^sup>2 + (self_state self ! 9)\<^sup>2) \<noteq> 0"
  shows "linalg_norm (slice 6 10 (self_state (normalize_quaternion self))) = 1"
  using assms by (simp add: normalize_state Let_def slice_6_10 norm4)

lemma fm_wind: "self_wind (snd (forces_moments P T self delta)) = self_wind self"
  by (simp add: forces_moments_def Let_def split: prod.splits)

lemma fm_state: "self_state (snd (forces_moments P T self delta)) = self_state self"
  by (simp add: forces_moments_def Let_def split: prod.splits)

lemma fm_ts: "self_ts_simulation (snd (forces_moments P T self delta)) = self_ts_simulation self"
  by (simp add: forces_moments_def Let_def split: prod.splits)

lemma integrate_wind: "self_wind (integrate P T self fm) = self_wind self"
  by (simp add: integrate_def Let_def)

lemma normalize_wind: "self_wind (normalize_quaternion self) = self_wind self"
  by (simp add: normalize_quaternion_def Let_def)

lemma uvd_wind: "self_wind (update_velocity_data T self w) = self_wind self"
  by (simp add: update_velocity_data_def Let_def)

lemma uvd_state: "self_state (update_velocity_data T self w) = self_state self"
  by (simp add: update_velocity_data_def Let_def)

lemma uts_wind: "self_wind (update_true_state T self) = self_wind self"
  by (simp add: update_true_state_def Let_def split: prod.splits)

lemma uts_state: "self_state (update_true_state T self) = self_state self"
  by (simp add: update_true_state_def Let_def split: prod.splits)

lemma uts_wn: "msg_wn (self_true_state (update_true_state T self)) = self_wind self ! 0"
  by (simp add: update_true_state_def Let_def split: prod.splits)

lemma uts_we: "msg_we (self_true_state (update_true_state T self)) = self_wind self ! 1"
  by (simp add: update_true_state_def Let_def split: prod.splits)

lemma update_wind: "self_wind (update P T self delta wind) = self_wind self"
  unfolding update_def Let_def using fm_wind[of P T self delta]
  by (cases "forces_moments P T self delta")
     (simp add: integrate_wind normalize_wind uvd_wind uts_wind)

lemma update_wn_we:
  "msg_wn (self_true_state (update P T self delta wind)) = self_wind self ! 0
   \<and> msg_we (self_true_state (update P T self delta wind)) = self_wind self ! 1"
  unfolding update_def Let_def using fm_wind[of P T self delta]
  by (cases "forces_moments P T self delta")
     (simp add: integrate_wind normalize_wind uvd_wind uts_wn uts_we)

lemma run_wind: "self_wind (run P T self calls) = self_wind self"
  by (induction calls arbitrary: self) (auto simp add: update_wind)

lemma run_wn_we:
  "calls \<noteq> [] \<Longrightarrow>
     msg_wn (self_true_state (run P T self calls)) = self_wind self ! 0
     \<and> msg_we (self_true_state (run P T self calls)) = self_wind self ! 1"
proof (induction calls arbitrary: self)
  case Nil
  then show ?case by simp
next
  case (Cons call calls)
  obtain delta wind where call: "call = (delta, wind)" by (cases call)
  show ?case
  proof (cases "calls = []")
    case True
    then show ?thesis by (simp add: call update_wn_we)
  next
    case False
    from Cons.IH [OF False, of "update P T self delta wind"]
    show ?thesis by (simp add: call update_wind)
  qed
qed

lemma init_wind: "self_wind (init P T msg Ts) = [0, 0, 0]"
  by (simp add: init_def Let_def uvd_wind)

lemma init_state:
  "self_state (init P T msg Ts) =
     [MAV_north0 P, MAV_east0 P, MAV_down0 P, MAV_u0 P, MAV_v0 P, MAV_w0 P,
      MAV_e0 P, MAV_e1 P, MAV_e2 P, MAV_e3 P, MAV_p0 P, MAV_q0 P, MAV_r0 P]"
  by (simp add: init_def Let_def uvd_state)

lemma dot_zero: "(\<forall>y \<in> set ys. y = 0) \<Longrightarrow> dot xs ys = 0"
proof (induction xs arbitrary: ys)
  case Nil
  then show ?case by (simp add: dot_def)
next
  case (Cons x xs)
  show ?case
  proof (cases ys)
    case Nil
    then show ?thesis by (simp add: dot_def)
  next
    case (Cons y ys')
    with Cons.prems Cons.IH [of ys'] show ?thesis by (simp add: dot_def)
  qed
qed

lemma length3E: "length xs = 3 \<Longrightarrow> \<exists>a b c. xs = [a, b, c]"
  by (auto simp add: numeral_3_eq_3 length_Suc_conv)

lemma matvec3:
  assumes "length A = 3"
  shows "matvec A x = [dot (A ! 0) x, dot (A ! 1) x, dot (A ! 2) x]"
proof -
  from length3E [OF assms] obtain a b c where "A = [a, b, c]" by blast
  then show ?thesis by (simp add: matvec_def)
qed

lemma uvd_fields:
  assumes "length (self_state self) = 13" and "length wind = 6"
    and "length (Quaternion2Rotation T (slice 6 10 (self_state self))) = 3"
  shows "(let Rb_i = Quaternion2Rotation T (slice 6 10 (self_state self));
              ur = self_state self ! 3 - (dot (Rb_i ! 0) [wind ! 0, wind ! 1, wind ! 2] + wind ! 3);
              vr = self_state self ! 4 - (dot (Rb_i ! 1) [wind ! 0, wind ! 1, wind ! 2] + wind ! 4);
              wr = self_state self ! 5 - (dot (Rb_i ! 2) [wind ! 0, wind ! 1, wind ! 2] + wind ! 5);
              Va = sqrt (ur\<^sup>2 + vr\<^sup>2 + wr\<^sup>2)
          in self_Va (update_velocity_data T self wind) = Va
           \<and> self_alpha (update_velocity_data T self wind) = (if ur = 0 then 0 else arctan (wr / ur))
           \<and> self_beta (update_velocity_data T self wind) = (if Va = 0 then 0 else arcsin (vr / Va)))"
proof -
  have w: "slice 0 3 wind = [wind ! 0, wind ! 1, wind ! 2]" "slice 3 6 wind = [wind ! 3, wind ! 4, wind ! 5]"
    using assms(2) by (simp_all add: slice_0_3 slice_3_6)
  have s: "slice 3 6 (self_state self) = [self_state self ! 3, self_state self ! 4, self_state self ! 5]"
    using assms(1) by (simp add: slice_3_6)
  show ?thesis
    unfolding update_velocity_data_def Let_def w s matvec3 [OF assms(3)]
    by (simp add: vadd_def vsub_def linalg_norm_def add.assoc)
qed


lemma arcsin_45: "arcsin (1 / sqrt 2) = pi / 4"
proof -
  have "sin (pi / 4) = 1 / sqrt 2" by (simp add: sin_45 real_div_sqrt)
  then have "arcsin (1 / sqrt 2) = arcsin (sin (pi / 4))" by simp
  also have "\<dots> = pi / 4" by (rule arcsin_sin) simp_all
  finally show ?thesis .
qed


lemma init_ts: "self_ts_simulation (init P T msg Ts) = Ts"
  by (simp add: init_def Let_def update_velocity_data_def)

lemma init_air: "self_Va (init P T msg Ts) = MAV_u0 P" "self_alpha (init P T msg Ts) = 0" "self_beta (init P T msg Ts) = 0"
  by (simp_all add: init_def Let_def)


lemma fm_example:
  "fst (forces_moments MAV_example rotations_example mav_example delta_example) = [0, 0, 0, 0, 35782263 / 64000000, 0]"
  apply (simp add: forces_moments_def Let_def mav_example_def init_state init_air split: prod.splits)
  apply (simp add: q_dynamic_def F_lift_def F_drag_def init_air init_state delta_example_def MAV_example_def)
  done


lemma update_state:
  "self_state (update P T self delta wind) =
     self_state (normalize_quaternion
       (integrate P T (snd (forces_moments P T self delta)) (fst (forces_moments P T self delta))))"
  unfolding update_def Let_def
  by (cases "forces_moments P T self delta") (simp add: uts_state uvd_state)

lemma length_normalize:
  "length (self_state (normalize_quaternion self)) = length (self_state self)"
  by (simp add: normalize_state Let_def)

lemma length_update:
  "length (self_state self) = 13 \<Longrightarrow> length (self_state (update P T self delta wind)) = 13"
  by (simp add: update_state length_normalize length_integrate fm_state)

lemma length_run:
  "length (self_state self) = 13 \<Longrightarrow> length (self_state (run P T self calls)) = 13"
  by (induction calls arbitrary: self) (auto simp add: length_update)

lemma run_append: "run P T self (xs @ ys) = run P T (run P T self xs) ys"
  by (induction xs arbitrary: self) auto

lemma update_unit:
  assumes "length (self_state self) = 13"
    and "linalg_norm (slice 6 10 (self_state (integrate P T (snd (forces_moments P T self delta))
            (fst (forces_moments P T self delta))))) \<noteq> 0"
  shows "linalg_norm (slice 6 10 (self_state (update P T self delta wind))) = 1"
proof -
  let ?s = "integrate P T (snd (forces_moments P T self delta)) (fst (forces_moments P T self delta))"
  have len: "length (self_state ?s) = 13"
    using assms(1) by (simp add: length_integrate fm_state)
  from assms(2) have "sqrt ((self_state ?s ! 6)\<^sup>2 + (self_state ?s ! 7)\<^sup>2
       + (self_state ?s ! 8)\<^sup>2 + (self_state ?s ! 9)\<^sup>2) \<noteq> 0"
    using len by (simp add: slice_6_10 linalg_norm_def add.assoc)
  from normalize_unit [OF len this] show ?thesis by (simp add: update_state)
qed

lemma state_example: "self_state mav_example = [0, 0, - 100, 25, 0, 0, 1, 0, 0, 0, 0, 0, 0]"
  by (simp add: mav_example_def init_state MAV_example_def)

lemma ts_example: "self_ts_simulation mav_example = 1 / 100"
  by (simp add: mav_example_def init_ts)

lemma rk4_example_11:
  "(let fm = [0, 0, 0, 0, 35782263 / 64000000, 0];
        dt = 1 / 100;
        st = [0, 0, - 100, 25, 0, 0, 1, 0, 0, 0, 0, 0, 0];
        k1 = derivatives MAV_example rotations_example st fm;
        k2 = derivatives MAV_example rotations_example (vadd st (smul (dt / 2) k1)) fm;
        k3 = derivatives MAV_example rotations_example (vadd st (smul (dt / 2) k2)) fm;
        k4 = derivatives MAV_example rotations_example (vadd st (smul dt k3)) fm
    in st ! 11 + dt / 6 * (k1 ! 11 + 2 * k2 ! 11 + 2 * k3 ! 11 + k4 ! 11)) = 35782263 / 7264000000"
  apply (simp only: Let_def)
  apply (simp add: Let_def derivatives_def vadd_def smul_def matvec_def dot_def MAV_example_def)
  done

lemma uts_air:
  "msg_Va (self_true_state (update_true_state T self)) = self_Va self"
  "msg_alpha (self_true_state (update_true_state T self)) = self_alpha self"
  "msg_beta (self_true_state (update_true_state T self)) = self_beta self"
  by (simp_all add: update_true_state_def Let_def split: prod.splits)

lemma sigma_less_1: "sigma P self < 1"
proof -
  define a where "a = exp (- MAV_M P * (self_alpha self - MAV_alpha0 P))"
  define b where "b = exp (MAV_M P * (self_alpha self + MAV_alpha0 P))"
  have a: "0 < a" and b: "0 < b" by (simp_all add: a_def b_def)
  have "1 + a + b < (1 + a) * (1 + b)" using a b by (simp add: algebra_simps)
  moreover have "0 < (1 + a) * (1 + b)" using a b by (simp add: add_pos_pos)
  ultimately have "(1 + a + b) / ((1 + a) * (1 + b)) < 1" by simp
  then show ?thesis by (simp add: sigma_def Let_def a_def b_def)
qed

lemma air_example:
  "self_Va mav_example = 25" "self_alpha mav_example = 0" "self_beta mav_example = 0"
  by (simp_all add: mav_example_def init_air MAV_example_def)

lemma CL_example_pos: "0 < CL MAV_example mav_example"
proof -
  have "CL MAV_example mav_example = (1 - sigma MAV_example mav_example) * (23 / 100)"
    by (simp add: CL_def air_example MAV_example_def)
  with sigma_less_1 [of MAV_example mav_example] show ?thesis by simp
qed

lemma q_dynamic_example: "q_dynamic MAV_example mav_example = 697510 / 3200"
  by (simp add: q_dynamic_def air_example MAV_example_def)

text \<open>Which parameters the parts of \<^verbatim>\<open>update\<close> read.\<close>

lemma derivatives_gravity:
  "derivatives (P\<lparr>MAV_gravity := g\<rparr>) T st fm = derivatives P T st fm"
  by (simp add: derivatives_def)

lemma integrate_gravity:
  "integrate (P\<lparr>MAV_gravity := g\<rparr>) T self fm = integrate P T self fm"
  by (simp add: integrate_def derivatives_gravity)

lemma aero_gravity:
  "sigma (P\<lparr>MAV_gravity := g\<rparr>) self = sigma P self"
  "q_dynamic (P\<lparr>MAV_gravity := g\<rparr>) self = q_dynamic P self"
  "CL (P\<lparr>MAV_gravity := g\<rparr>) self = CL P self"
  "CD (P\<lparr>MAV_gravity := g\<rparr>) self = CD P self"
  "motor_thrust_torque (P\<lparr>MAV_gravity := g\<rparr>) Va t = motor_thrust_torque P Va t"
  by (simp_all add: sigma_def q_dynamic_def CL_def CD_def motor_thrust_torque_def)

lemma lift_drag_gravity:
  "F_lift (P\<lparr>MAV_gravity := g\<rparr>) self delta = F_lift P self delta"
  "F_drag (P\<lparr>MAV_gravity := g\<rparr>) self delta = F_drag P self delta"
  by (simp_all add: F_lift_def F_drag_def aero_gravity)

lemma forces_moments_gravity:
  "forces_moments (P\<lparr>MAV_gravity := g\<rparr>) T self delta = forces_moments P T self delta"
  by (simp add: forces_moments_def aero_gravity lift_drag_gravity Let_def split: prod.splits)

lemma update_gravity:
  "update (P\<lparr>MAV_gravity := g\<rparr>) T self delta wind = update P T self delta wind"
  by (simp add: update_def forces_moments_gravity integrate_gravity)

lemma derivatives_propulsion:
  "derivatives (P\<lparr>MAV_V_max := v, MAV_C_Q0 := q0, MAV_C_Q1 := q1, MAV_C_Q2 := q2,
       MAV_D_prop := d, MAV_KQ := k, MAV_R_motor := rm, MAV_i0 := i, MAV_C_T0 := t0,
       MAV_C_T1 := t1, MAV_C_T2 := t2\<rparr>) T st fm = derivatives P T st fm"
  by (simp add: derivatives_def)

lemma aero_propulsion:
  "sigma (P\<lparr>MAV_V_max := v, MAV_C_Q0 := q0, MAV_C_Q1 := q1, MAV_C_Q2 := q2,
       MAV_D_prop := d, MAV_KQ := k, MAV_R_motor := rm, MAV_i0 := i, MAV_C_T0 := t0,
       MAV_C_T1 := t1, MAV_C_T2 := t2\<rparr>) self = sigma P self"
  "q_dynamic (P\<lparr>MAV_V_max := v, MAV_C_Q0 := q0, MAV_C_Q1 := q1, MAV_C_Q2 := q2,
       MAV_D_prop := d, MAV_KQ := k, MAV_R_motor := rm, MAV_i0 := i, MAV_C_T0 := t0,
       MAV_C_T1 := t1, MAV_C_T2 := t2\<rparr>) self = q_dynamic P self"
  "CL (P\<lparr>MAV_V_max := v, MAV_C_Q0 := q0, MAV_C_Q1 := q1, MAV_C_Q2 := q2,
       MAV_D_prop := d, MAV_KQ := k, MAV_R_motor := rm, MAV_i0 := i, MAV_C_T0 := t0,
       MAV_C_T1 := t1, MAV_C_T2 := t2\<rparr>) self = CL P self"
  "CD (P\<lparr>MAV_V_max := v, MAV_C_Q0 := q0, MAV_C_Q1 := q1, MAV_C_Q2 := q2,
       MAV_D_prop := d, MAV_KQ := k, MAV_R_motor := rm, MAV_i0 := i, MAV_C_T0 := t0,
       MAV_C_T1 := t1, MAV_C_T2 := t2\<rparr>) self = CD P self"
  by (simp_all add: sigma_def q_dynamic_def CL_def CD_def)

lemma lift_drag_propulsion:
  "F_lift (P\<lparr>MAV_V_max := v, MAV_C_Q0 := q0, MAV_C_Q1 := q1, MAV_C_Q2 := q2,
       MAV_D_prop := d, MAV_KQ := k, MAV_R_motor := rm, MAV_i0 := i, MAV_C_T0 := t0,
       MAV_C_T1 := t1, MAV_C_T2 := t2\<rparr>) self delta = F_lift P self delta"
  "F_drag (P\<lparr>MAV_V_max := v, MAV_C_Q0 := q0, MAV_C_Q1 := q1, MAV_C_Q2 := q2,
       MAV_D_prop := d, MAV_KQ := k, MAV_R_motor := rm, MAV_i0 := i, MAV_C_T0 := t0,
       MAV_C_T1 := t1, MAV_C_T2 := t2\<rparr>) self delta = F_drag P self delta"
  by (simp_all add: F_lift_def F_drag_def aero_propulsion)

lemma lift_drag_throttle:
  "F_lift P self (delta\<lparr>throttle := t\<rparr>) = F_lift P self delta"
  "F_drag P self (delta\<lparr>throttle := t\<rparr>) = F_drag P self delta"
  by (simp_all add: F_lift_def F_drag_def)

lemma forces_moments_propulsion:
  "forces_moments (P\<lparr>MAV_V_max := v, MAV_C_Q0 := q0, MAV_C_Q1 := q1, MAV_C_Q2 := q2,
       MAV_D_prop := d, MAV_KQ := k, MAV_R_motor := rm, MAV_i0 := i, MAV_C_T0 := t0,
       MAV_C_T1 := t1, MAV_C_T2 := t2\<rparr>) T self (delta\<lparr>throttle := t\<rparr>)
     = forces_moments P T self delta"
  unfolding forces_moments_def aero_propulsion lift_drag_propulsion lift_drag_throttle Let_def
  by (simp add: f_g_def split: prod.splits)

lemma Omega_op_pos:
  fixes a b c :: real
  assumes "0 < a" and "c < 0"
  shows "0 < (- b + sqrt (b\<^sup>2 - 4 * a * c)) / (2 * a)"
proof -
  have "a * c < 0" using assms by (simp add: mult_pos_neg)
  then have "b\<^sup>2 < b\<^sup>2 - 4 * a * c" by simp
  then have "sqrt (b\<^sup>2) < sqrt (b\<^sup>2 - 4 * a * c)" by (simp only: real_sqrt_less_iff)
  then have "b < sqrt (b\<^sup>2 - 4 * a * c)" by simp
  with assms(1) show ?thesis by simp
qed

lemma thrust_depends_on_C_T0:
  "fst (motor_thrust_torque (MAV_example\<lparr>MAV_C_T0 := MAV_C_T0 MAV_example + 1\<rparr>) 25 t)
     \<noteq> fst (motor_thrust_torque MAV_example 25 t)"
proof -
  define a :: real where "a = MAV_C_Q0 MAV_example * MAV_rho MAV_example
     * (MAV_D_prop MAV_example) ^ 5 / ((2 * pi)\<^sup>2)"
  define b :: real where "b = (MAV_C_Q1 MAV_example * MAV_rho MAV_example
     * (MAV_D_prop MAV_example) ^ 4 * 25 / ((2 * pi)\<^sup>2))
       + (MAV_KQ MAV_example)\<^sup>2 / MAV_R_motor MAV_example"
  define c :: real where "c = (MAV_C_Q2 MAV_example * MAV_rho MAV_example
     * (MAV_D_prop MAV_example) ^ 3 * 25\<^sup>2)
       - (MAV_KQ MAV_example / MAV_R_motor MAV_example) + MAV_KQ MAV_example * MAV_i0 MAV_example"
  define Om where "Om = (- b + sqrt (b\<^sup>2 - 4 * a * c)) / (2 * a)"
  have a: "0 < a" by (simp add: a_def MAV_example_def)
  have c: "c < 0" by (simp add: c_def MAV_example_def power3_eq_cube)
  have Om: "0 < Om" unfolding Om_def using a c by (rule Omega_op_pos)
  have "fst (motor_thrust_torque (MAV_example\<lparr>MAV_C_T0 := MAV_C_T0 MAV_example + 1\<rparr>) 25 t)
      = fst (motor_thrust_torque MAV_example 25 t)
        + MAV_rho MAV_example * (Om / (2 * pi))\<^sup>2 * (MAV_D_prop MAV_example) ^ 4"
    unfolding motor_thrust_torque_def Let_def Om_def a_def b_def c_def
    by (simp add: algebra_simps)
  moreover have "0 < MAV_rho MAV_example * (Om / (2 * pi))\<^sup>2 * (MAV_D_prop MAV_example) ^ 4"
    using Om by (simp add: MAV_example_def)
  ultimately show ?thesis by linarith
qed

lemma integrate_propulsion:
  "integrate (P\<lparr>MAV_V_max := v, MAV_C_Q0 := q0, MAV_C_Q1 := q1, MAV_C_Q2 := q2,
       MAV_D_prop := d, MAV_KQ := k, MAV_R_motor := rm, MAV_i0 := i, MAV_C_T0 := t0,
       MAV_C_T1 := t1, MAV_C_T2 := t2\<rparr>) T self fm = integrate P T self fm"
  unfolding integrate_def derivatives_propulsion by (rule refl)

lemma update_propulsion:
  "update (P\<lparr>MAV_V_max := v, MAV_C_Q0 := q0, MAV_C_Q1 := q1, MAV_C_Q2 := q2,
       MAV_D_prop := d, MAV_KQ := k, MAV_R_motor := rm, MAV_i0 := i, MAV_C_T0 := t0,
       MAV_C_T1 := t1, MAV_C_T2 := t2\<rparr>) T self (delta\<lparr>throttle := t\<rparr>) wind
     = update P T self delta wind"
  unfolding update_def forces_moments_propulsion integrate_propulsion by (rule refl)

lemma f_g_example:
  "f_g MAV_example rotations_example mav_example = [[0, 0, 0], [0, 0, 0], [0, 0, 10791 / 100]]"
  by (simp add: f_g_def state_example slice_def rotations_example_def
        Quaternion2Rotation_example_def smul_def MAV_example_def)

lemma update_result_Some:
  "update_result P T self delta wind = Some s \<Longrightarrow> s = update P T self delta wind"
  by (auto simp add: update_result_def forces_moments_result_def update_def Let_def
        split: if_splits prod.splits)

lemma update_result_defined:
  assumes "self_Va self \<noteq> 0"
    and "linalg_norm (slice 6 10 (self_state (integrate P T (snd (forces_moments P T self delta))
            (fst (forces_moments P T self delta))))) \<noteq> 0"
    and "length (self_state self) = 13"
  shows "update_result P T self delta wind = Some (update P T self delta wind)"
proof -
  let ?s = "integrate P T (snd (forces_moments P T self delta)) (fst (forces_moments P T self delta))"
  have len: "length (self_state ?s) = 13"
    using assms(3) by (simp add: length_integrate fm_state)
  from assms(2) have "sqrt ((self_state ?s ! 6)\<^sup>2 + (self_state ?s ! 7)\<^sup>2
       + (self_state ?s ! 8)\<^sup>2 + (self_state ?s ! 9)\<^sup>2) \<noteq> 0"
    using len by (simp add: slice_6_10 linalg_norm_def add.assoc)
  with assms(1) show ?thesis
    by (cases "forces_moments P T self delta")
       (simp add: update_result_def forces_moments_result_def update_def Let_def)
qed

lemma update_result_zero_airspeed:
  "self_Va self = 0 \<Longrightarrow> update_result P T self delta wind = None"
  by (simp add: update_result_def forces_moments_result_def)

lemma run_result_append:
  "run_result P T self (xs @ ys) =
     (case run_result P T self xs of None \<Rightarrow> None | Some s \<Rightarrow> run_result P T s ys)"
  by (induction xs arbitrary: self) (auto split: option.splits)

lemma length_run_result:
  "run_result P T self calls = Some s \<Longrightarrow> length (self_state self) = 13
     \<Longrightarrow> length (self_state s) = 13"
proof (induction calls arbitrary: self)
  case Nil
  then show ?case by simp
next
  case (Cons call calls)
  obtain delta wind where call: "call = (delta, wind)" by (cases call)
  from Cons.prems(1) obtain s1 where s1: "update_result P T self delta wind = Some s1"
    and r: "run_result P T s1 calls = Some s"
    by (auto simp add: call split: option.splits)
  from update_result_Some [OF s1] Cons.prems(2) have "length (self_state s1) = 13"
    by (simp add: length_update)
  with Cons.IH [OF r] show ?case .
qed

lemma state_rest: "self_state mav_rest = [0, 0, - 100, 0, 0, 0, 1, 0, 0, 0, 0, 0, 0]"
  by (simp add: mav_rest_def external_set_state_def)

lemma air_rest: "self_Va mav_rest = 25" "self_alpha mav_rest = 0" "self_beta mav_rest = 0"
  "self_ts_simulation mav_rest = 1 / 100"
  by (simp_all add: mav_rest_def external_set_state_def air_example ts_example)

lemma fm_rest:
  "fst (forces_moments MAV_example rotations_example mav_rest delta_example)
     = [0, 0, 0, 0, 35782263 / 64000000, 0]"
  apply (simp add: forces_moments_def Let_def state_rest air_rest split: prod.splits)
  apply (simp add: q_dynamic_def F_lift_def F_drag_def air_rest state_rest
            delta_example_def MAV_example_def)
  done

lemma integrate_rest:
  "self_state (integrate MAV_example rotations_example
      (snd (forces_moments MAV_example rotations_example mav_rest delta_example))
      (fst (forces_moments MAV_example rotations_example mav_rest delta_example)))
   = [0, 0, - 100, 0, 0, 0,
      16885022718719629654598831 / 16885022720000000000000000, 0,
      604184323712743843854484843444851 / 49061122015232000000000000000000000000,
      0, 0, 35782263 / 7264000000, 0]"
  apply (simp add: fm_rest)
  apply (simp add: integrate_def Let_def fm_state fm_ts state_rest air_rest)
  apply (simp add: derivatives_def Let_def vadd_def smul_def matvec_def dot_def
            rotations_example_def Quaternion2Rotation_example_def MAV_example_def)
  done

lemma uts_Va: "self_Va (update_true_state T self) = self_Va self"
  by (simp add: update_true_state_def Let_def split: prod.splits)

lemma update_Va:
  "self_Va (update P T self delta wind) =
     self_Va (update_velocity_data T (normalize_quaternion
       (integrate P T (snd (forces_moments P T self delta))
          (fst (forces_moments P T self delta)))) wind)"
  unfolding update_def Let_def
  by (cases "forces_moments P T self delta") (simp add: uts_Va)

lemma rows_example: "length (Quaternion2Rotation rotations_example q) = 3"
  by (simp add: rotations_example_def Quaternion2Rotation_example_def Let_def)

lemma Va_after_rest:
  "self_Va (update MAV_example rotations_example mav_rest delta_example [0, 0, 0, 0, 0, 0]) = 0"
proof -
  let ?s = "normalize_quaternion (integrate MAV_example rotations_example
      (snd (forces_moments MAV_example rotations_example mav_rest delta_example))
      (fst (forces_moments MAV_example rotations_example mav_rest delta_example)))"
  have len: "length (self_state ?s) = 13"
    by (simp add: length_normalize integrate_rest)
  have v: "self_state ?s ! 3 = 0" "self_state ?s ! 4 = 0" "self_state ?s ! 5 = 0"
    by (simp_all add: normalize_state Let_def integrate_rest)
  have w: "length [0, 0, 0, 0, 0, 0 :: real] = 6" by simp
  have d: "dot row [0, 0, 0] = 0" for row by (rule dot_zero) simp
  from uvd_fields [OF len w rows_example]
  have "self_Va (update_velocity_data rotations_example ?s [0, 0, 0, 0, 0, 0]) = 0"
    by (simp add: Let_def d v)
  then show ?thesis by (simp add: update_Va)
qed

lemma norm_rest_nonzero:
  "linalg_norm (slice 6 10 (self_state (integrate MAV_example rotations_example
      (snd (forces_moments MAV_example rotations_example mav_rest delta_example))
      (fst (forces_moments MAV_example rotations_example mav_rest delta_example))))) \<noteq> 0"
  by (simp add: integrate_rest slice_def linalg_norm_def)

lemma norm_example_nonzero:
  "linalg_norm (slice 6 10 (self_state (integrate MAV_example rotations_example
      (snd (forces_moments MAV_example rotations_example mav_example delta_example))
      (fst (forces_moments MAV_example rotations_example mav_example delta_example))))) \<noteq> 0"
  apply (simp add: fm_example)
  apply (simp add: integrate_def Let_def fm_state fm_ts state_example ts_example)
  apply (simp add: derivatives_def Let_def vadd_def smul_def matvec_def dot_def
            MAV_example_def slice_def linalg_norm_def)
  done

section \<open>Properties\<close>

text \<open>
  C1. One call of \<^verbatim>\<open>update\<close> advances each of the 13 elements of the state by the
  classical Runge-Kutta step: with \<open>k1\<close> to \<open>k4\<close> the derivatives at the state and at the
  three perturbed states, element \<open>i\<close> of the state before the normalisation is
  \<open>st ! i + dt / 6 * (k1 ! i + 2 * k2 ! i + 2 * k3 ! i + k4 ! i)\<close>. All four stages read the
  same vector \<open>fm\<close>, which \<^verbatim>\<open>_forces_moments\<close> computes once from the state before the
  step. The state that \<^verbatim>\<open>update\<close> leaves differs from it in the elements 6 to 9 only,
  which are divided by the norm of the quaternion.
\<close>

theorem update_is_rk4:
  assumes "length (self_state self) = 13" and "i < 13"
  shows "(let fm = fst (forces_moments P T self delta);
              dt = self_ts_simulation self;
              st = self_state self;
              k1 = derivatives P T st fm;
              k2 = derivatives P T (vadd st (smul (dt / 2) k1)) fm;
              k3 = derivatives P T (vadd st (smul (dt / 2) k2)) fm;
              k4 = derivatives P T (vadd st (smul dt k3)) fm;
              new = (\<lambda>j. st ! j + dt / 6 * (k1 ! j + 2 * k2 ! j + 2 * k3 ! j + k4 ! j));
              normE = sqrt ((new 6)\<^sup>2 + (new 7)\<^sup>2 + (new 8)\<^sup>2 + (new 9)\<^sup>2)
          in self_state (integrate P T (snd (forces_moments P T self delta)) fm) ! i = new i
           \<and> length (self_state (update P T self delta wind)) = 13
           \<and> self_state (update P T self delta wind) ! i
               = (if i \<in> {6, 7, 8, 9} then new i / normE else new i))"
proof -
  let ?s1 = "snd (forces_moments P T self delta)"
  have len1: "length (self_state ?s1) = 13" using assms(1) by (simp add: fm_state)
  have n: "\<And>j. j < 13 \<Longrightarrow> self_state (integrate P T ?s1 fm) ! j =
        (let dt = self_ts_simulation self; st = self_state self;
          k1 = derivatives P T st fm;
          k2 = derivatives P T (vadd st (smul (dt / 2) k1)) fm;
          k3 = derivatives P T (vadd st (smul (dt / 2) k2)) fm;
          k4 = derivatives P T (vadd st (smul dt k3)) fm
      in st ! j + dt / 6 * (k1 ! j + 2 * k2 ! j + 2 * k3 ! j + k4 ! j))" for fm
    using integrate_state_nth [OF len1, of _ P T fm] by (simp add: fm_state fm_ts)
  have len2: "length (self_state (integrate P T ?s1 fm)) = 13" for fm
    using len1 by (rule length_integrate)
  show ?thesis
    using assms(2) len2
    by (auto simp add: Let_def update_state normalize_state n length_update [OF assms(1)])
qed

theorem update_is_rk4_witness:
  "length (self_state mav_example) = 13 \<and> (11::nat) < 13
   \<and> length (self_state (update MAV_example rotations_example mav_example delta_example
         [0, 0, 0, 0, 0, 0])) = 13
   \<and> self_state (update MAV_example rotations_example mav_example delta_example
         [0, 0, 0, 0, 0, 0]) ! 11 = 35782263 / 7264000000"
proof -
  have len: "length (self_state mav_example) = 13"
    by (simp add: state_example)
  have i: "(11::nat) < 13" by simp
  have n: "(11::nat) \<notin> {6, 7, 8, 9}" by simp
  note t = update_is_rk4 [OF len i, of MAV_example rotations_example delta_example
              "[0, 0, 0, 0, 0, 0]", unfolded fm_example state_example ts_example Let_def]
  note l = t [THEN conjunct2, THEN conjunct1]
  note e = t [THEN conjunct2, THEN conjunct2, unfolded if_not_P [OF n]]
  note v = trans [OF e rk4_example_11 [unfolded Let_def]]
  from len i l v show ?thesis by blast
qed

text \<open>
  C2. The specification states the invariant for every reachable state whose quaternion
  after the integration has a nonzero norm. It holds where, besides, the stored airspeed
  \<^verbatim>\<open>_Va\<close> is nonzero, which \<^verbatim>\<open>_forces_moments\<close> divides by. Take an object whose state has
  its 13 elements, any sequence of calls of \<^verbatim>\<open>update\<close> that has a result, and one more
  call. If the airspeed stored before this call is nonzero and the quaternion that its
  Runge-Kutta step produces has a nonzero Euclidean norm, then the call has a result, and
  in it the attitude quaternion (elements 6 to 9 of the state) has norm 1, and so lies
  within \<^verbatim>\<open>1e-9\<close> of 1. Since the sequence before the last call is arbitrary, this holds
  after every such call.
\<close>

theorem quaternion_unit_after_update:
  assumes "length (self_state self) = 13"
    and "run_result P T self calls = Some s"
    and "self_Va s \<noteq> 0"
    and "linalg_norm (slice 6 10 (self_state
           (integrate P T (snd (forces_moments P T s delta))
              (fst (forces_moments P T s delta))))) \<noteq> 0"
  shows "\<exists>s'. run_result P T self (calls @ [(delta, wind)]) = Some s'
       \<and> linalg_norm (slice 6 10 (self_state s')) = 1
       \<and> \<bar>linalg_norm (slice 6 10 (self_state s')) - 1\<bar> \<le> 1 / 10 ^ 9"
proof -
  have len: "length (self_state s) = 13"
    using assms(2,1) by (rule length_run_result)
  have r: "run_result P T self (calls @ [(delta, wind)]) = Some (update P T s delta wind)"
    using update_result_defined [OF assms(3,4) len, of wind]
    by (simp add: run_result_append assms(2))
  from update_unit [OF len assms(4), of wind] r show ?thesis by simp
qed

theorem quaternion_unit_after_update_witness:
  "length (self_state mav_example) = 13
   \<and> run_result MAV_example rotations_example mav_example [] = Some mav_example
   \<and> self_Va mav_example \<noteq> 0
   \<and> linalg_norm (slice 6 10 (self_state
         (integrate MAV_example rotations_example
            (snd (forces_moments MAV_example rotations_example mav_example delta_example))
            (fst (forces_moments MAV_example rotations_example mav_example delta_example)))))
        \<noteq> 0
   \<and> (\<exists>s'. run_result MAV_example rotations_example mav_example
               ([] @ [(delta_example, [0, 0, 0, 0, 0, 0])]) = Some s'
          \<and> linalg_norm (slice 6 10 (self_state s')) = 1
          \<and> \<bar>linalg_norm (slice 6 10 (self_state s')) - 1\<bar> \<le> 1 / 10 ^ 9)"
proof -
  have len: "length (self_state mav_example) = 13" by (simp add: state_example)
  have r: "run_result MAV_example rotations_example mav_example [] = Some mav_example"
    by simp
  have va: "self_Va mav_example \<noteq> 0" by (simp add: air_example)
  note nz = norm_example_nonzero
  from quaternion_unit_after_update [OF len r va nz, of "[0, 0, 0, 0, 0, 0]"] len r va nz
  show ?thesis by blast
qed

text \<open>
  C2, where the airspeed is zero. The aircraft is set at rest and \<^verbatim>\<open>update\<close> is called
  twice with zero wind. The first call has a result: a state with a unit quaternion,
  whose stored airspeed is 0, as the body velocity stays 0. The second call divides by
  this airspeed and has no result: after it the quaternion is not of norm 1.
\<close>

theorem quaternion_not_unit_at_zero_airspeed:
  "update_result MAV_example rotations_example mav_rest delta_example [0, 0, 0, 0, 0, 0]
     = Some (update MAV_example rotations_example mav_rest delta_example [0, 0, 0, 0, 0, 0])
   \<and> linalg_norm (slice 6 10 (self_state
         (update MAV_example rotations_example mav_rest delta_example [0, 0, 0, 0, 0, 0]))) = 1
   \<and> self_Va (update MAV_example rotations_example mav_rest delta_example [0, 0, 0, 0, 0, 0])
       = 0
   \<and> update_result MAV_example rotations_example
        (update MAV_example rotations_example mav_rest delta_example [0, 0, 0, 0, 0, 0])
        delta_example [0, 0, 0, 0, 0, 0] = None
   \<and> run_result MAV_example rotations_example mav_rest
        [(delta_example, [0, 0, 0, 0, 0, 0]), (delta_example, [0, 0, 0, 0, 0, 0])] = None"
proof -
  have len: "length (self_state mav_rest) = 13" by (simp add: state_rest)
  have va: "self_Va mav_rest \<noteq> 0" by (simp add: air_rest)
  have a: "update_result MAV_example rotations_example mav_rest delta_example
             [0, 0, 0, 0, 0, 0]
     = Some (update MAV_example rotations_example mav_rest delta_example [0, 0, 0, 0, 0, 0])"
    using va norm_rest_nonzero len by (rule update_result_defined)
  have b: "linalg_norm (slice 6 10 (self_state
         (update MAV_example rotations_example mav_rest delta_example [0, 0, 0, 0, 0, 0]))) = 1"
    using len norm_rest_nonzero by (rule update_unit)
  note c = Va_after_rest
  have d: "update_result MAV_example rotations_example
        (update MAV_example rotations_example mav_rest delta_example [0, 0, 0, 0, 0, 0])
        delta_example [0, 0, 0, 0, 0, 0] = None"
    using c by (rule update_result_zero_airspeed)
  have e: "run_result MAV_example rotations_example mav_rest
        [(delta_example, [0, 0, 0, 0, 0, 0]), (delta_example, [0, 0, 0, 0, 0, 0])] = None"
    by (simp add: a d)
  from a b c d e show ?thesis by blast
qed

text \<open>
  C3. The specification gives the lift as \<open>q_dyn * (CL + CLq * (c / (2 * Va)) * q + CLdeltaE * elevator)\<close>,
  a sum of three terms, and the drag the analogous sum. The source multiplies \<open>CL\<close> by the
  pitch-rate term instead of adding the two (and \<open>CD\<close> likewise), while the side force
  and the three moments in the same function are sums. The first two equations state what
  the source computes. At the example (level flight at 25 m/s, pitch rate 0, elevator 0)
  the lift and the drag of the source are 0, while the sum of the specification is positive.
\<close>

theorem lift_is_product_not_sum:
  "F_lift P self delta
     = q_dynamic P self
         * (CL P self * (MAV_C_L_q P * (MAV_c P / (2 * self_Va self)) * (self_state self ! 11))
            + MAV_C_L_delta_e P * elevator delta)
   \<and> F_drag P self delta
     = q_dynamic P self
         * (CD P self * (MAV_C_D_q P * (MAV_c P / (2 * self_Va self)) * (self_state self ! 11))
            + MAV_C_D_delta_e P * elevator delta)
   \<and> F_lift MAV_example mav_example delta_example = 0
   \<and> F_drag MAV_example mav_example delta_example = 0
   \<and> 0 < q_dynamic MAV_example mav_example
          * (CL MAV_example mav_example
             + MAV_C_L_q MAV_example * (MAV_c MAV_example / (2 * self_Va mav_example))
                 * (self_state mav_example ! 11)
             + MAV_C_L_delta_e MAV_example * elevator delta_example)"
proof -
  have l: "F_lift MAV_example mav_example delta_example = 0"
    by (simp add: F_lift_def state_example delta_example_def)
  have d: "F_drag MAV_example mav_example delta_example = 0"
    by (simp add: F_drag_def state_example delta_example_def)
  have "0 < q_dynamic MAV_example mav_example * CL MAV_example mav_example"
    using CL_example_pos by (simp add: q_dynamic_example)
  then have "0 < q_dynamic MAV_example mav_example
          * (CL MAV_example mav_example
             + MAV_C_L_q MAV_example * (MAV_c MAV_example / (2 * self_Va mav_example))
                 * (self_state mav_example ! 11)
             + MAV_C_L_delta_e MAV_example * elevator delta_example)"
    by (simp add: state_example delta_example_def)
  moreover have "F_lift P self delta
     = q_dynamic P self
         * (CL P self * (MAV_C_L_q P * (MAV_c P / (2 * self_Va self)) * (self_state self ! 11))
            + MAV_C_L_delta_e P * elevator delta)"
    by (simp add: F_lift_def Let_def)
  moreover have "F_drag P self delta
     = q_dynamic P self
         * (CD P self * (MAV_C_D_q P * (MAV_c P / (2 * self_Va self)) * (self_state self ! 11))
            + MAV_C_D_delta_e P * elevator delta)"
    by (simp add: F_drag_def Let_def)
  ultimately show ?thesis using l d by blast
qed

text \<open>
  C4. The specification makes the gravitational force part of the net force \<open>fx, fy, fz\<close>.
  The source computes \<open>f_g\<close> and never reads it: the result of \<^verbatim>\<open>_forces_moments\<close>, and the
  whole of \<^verbatim>\<open>update\<close>, are the same for every value of \<^verbatim>\<open>MAV.gravity\<close>. At the example
  \<open>f_g\<close> holds the weight, 107.91 N, and the three forces returned are 0.
\<close>

theorem gravity_not_in_forces:
  "forces_moments (P\<lparr>MAV_gravity := g\<rparr>) T self delta = forces_moments P T self delta
   \<and> update (P\<lparr>MAV_gravity := g\<rparr>) T self delta wind = update P T self delta wind
   \<and> f_g MAV_example rotations_example mav_example
       = [[0, 0, 0], [0, 0, 0], [0, 0, 10791 / 100]]
   \<and> fst (forces_moments MAV_example rotations_example mav_example delta_example)
       = [0, 0, 0, 0, 35782263 / 64000000, 0]"
  by (simp add: forces_moments_gravity update_gravity f_g_example fm_example)

text \<open>
  C5. Let the state have its 13 elements, the wind its six, and the rotation matrix three
  rows, and let \<open>(ur, vr, wr)\<close> be the body velocity minus the wind in the body frame
  (the rotated steady wind plus the gust), with \<open>Va\<close> its Euclidean norm. Then
  \<^verbatim>\<open>_update_velocity_data\<close> stores \<open>Va\<close>; the angle of attack is \<open>arctan (wr / ur)\<close> when
  \<open>ur\<close> is nonzero and exactly 0 when it is zero; the sideslip is \<open>arcsin (vr / Va)\<close> when
  \<open>Va\<close> is nonzero and exactly 0 when it is zero. The equations give the two values in
  every case, so no other guard or branch changes them.
\<close>

theorem velocity_data_angles:
  assumes "length (self_state self) = 13" and "length wind = 6"
    and "length (Quaternion2Rotation T (slice 6 10 (self_state self))) = 3"
  shows "(let Rb_i = Quaternion2Rotation T (slice 6 10 (self_state self));
              ur = self_state self ! 3 - (dot (Rb_i ! 0) [wind ! 0, wind ! 1, wind ! 2] + wind ! 3);
              vr = self_state self ! 4 - (dot (Rb_i ! 1) [wind ! 0, wind ! 1, wind ! 2] + wind ! 4);
              wr = self_state self ! 5 - (dot (Rb_i ! 2) [wind ! 0, wind ! 1, wind ! 2] + wind ! 5);
              Va = sqrt (ur\<^sup>2 + vr\<^sup>2 + wr\<^sup>2)
          in self_Va (update_velocity_data T self wind) = Va
           \<and> self_alpha (update_velocity_data T self wind)
               = (if ur = 0 then 0 else arctan (wr / ur))
           \<and> self_beta (update_velocity_data T self wind)
               = (if Va = 0 then 0 else arcsin (vr / Va)))"
  using assms by (rule uvd_fields)

theorem velocity_data_angles_witness:
  "length (self_state mav_example) = 13 \<and> length [3, 4, 0, 1, 0, 12 :: real] = 6
   \<and> length (Quaternion2Rotation rotations_example (slice 6 10 (self_state mav_example))) = 3
   \<and> self_Va (update_velocity_data rotations_example mav_example [3, 4, 0, 1, 0, 12]) = sqrt 601
   \<and> self_alpha (update_velocity_data rotations_example mav_example [3, 4, 0, 1, 0, 12])
       = arctan (- 12 / 21)
   \<and> self_beta (update_velocity_data rotations_example mav_example [3, 4, 0, 1, 0, 12])
       = arcsin (- 4 / sqrt 601)"
proof -
  have st: "self_state mav_example = [0, 0, - 100, 25, 0, 0, 1, 0, 0, 0, 0, 0, 0]"
    by (simp add: mav_example_def init_state MAV_example_def)
  have len: "length (self_state mav_example) = 13" by (simp add: st)
  have w: "length [3, 4, 0, 1, 0, 12 :: real] = 6" by simp
  have R: "Quaternion2Rotation rotations_example (slice 6 10 (self_state mav_example))
             = [[1, 0, 0], [0, 1, 0], [0, 0, 1]]"
    by (simp add: st slice_def rotations_example_def Quaternion2Rotation_example_def)
  have r: "length (Quaternion2Rotation rotations_example (slice 6 10 (self_state mav_example))) = 3"
    by (simp add: R)
  from velocity_data_angles [OF len w r]
  have "self_Va (update_velocity_data rotations_example mav_example [3, 4, 0, 1, 0, 12]) = sqrt 601
   \<and> self_alpha (update_velocity_data rotations_example mav_example [3, 4, 0, 1, 0, 12])
       = arctan (- 12 / 21)
   \<and> self_beta (update_velocity_data rotations_example mav_example [3, 4, 0, 1, 0, 12])
       = arcsin (- 4 / sqrt 601)"
    unfolding R by (simp add: Let_def st dot_def)
  with len w r show ?thesis by blast
qed

text \<open>
  C6. The specification makes the thrust and the torque of the propeller part of the vector
  that \<^verbatim>\<open>_forces_moments\<close> returns. The source computes \<open>thrust_prop\<close> and \<open>torque_prop\<close> and
  never reads them: the result of \<^verbatim>\<open>_forces_moments\<close>, and the whole of \<^verbatim>\<open>update\<close>, are the
  same for every throttle and for every value of the eleven constants that only
  \<^verbatim>\<open>_motor_thrust_torque\<close> reads. The thrust itself does depend on them: at the example,
  raising \<open>C_T0\<close> by 1 changes it.
\<close>

theorem thrust_not_in_forces:
  "forces_moments (P\<lparr>MAV_V_max := v, MAV_C_Q0 := q0, MAV_C_Q1 := q1, MAV_C_Q2 := q2,
       MAV_D_prop := d, MAV_KQ := k, MAV_R_motor := rm, MAV_i0 := i, MAV_C_T0 := t0,
       MAV_C_T1 := t1, MAV_C_T2 := t2\<rparr>) T self (delta\<lparr>throttle := t\<rparr>)
     = forces_moments P T self delta
   \<and> update (P\<lparr>MAV_V_max := v, MAV_C_Q0 := q0, MAV_C_Q1 := q1, MAV_C_Q2 := q2,
       MAV_D_prop := d, MAV_KQ := k, MAV_R_motor := rm, MAV_i0 := i, MAV_C_T0 := t0,
       MAV_C_T1 := t1, MAV_C_T2 := t2\<rparr>) T self (delta\<lparr>throttle := t\<rparr>) wind
     = update P T self delta wind
   \<and> fst (motor_thrust_torque (MAV_example\<lparr>MAV_C_T0 := MAV_C_T0 MAV_example + 1\<rparr>) 25
            (throttle delta_example))
       \<noteq> fst (motor_thrust_torque MAV_example 25 (throttle delta_example))"
  using thrust_depends_on_C_T0 [of "throttle delta_example"]
  by (simp only: forces_moments_propulsion update_propulsion simp_thms)

text \<open>
  C7. For a fixed airspeed, \<^verbatim>\<open>_motor_thrust_torque\<close> returns the same pair of thrust and
  torque for any two throttle commands: the voltage \<open>V_in\<close> is computed and never read, so
  the result does not depend on the throttle at all. The statement holds for all reals,
  in particular for commands in the interval from 0 to 1.
\<close>

theorem motor_thrust_torque_ignores_throttle:
  "motor_thrust_torque P Va t1 = motor_thrust_torque P Va t2"
  by (simp add: motor_thrust_torque_def)

text \<open>
  C8. With body velocity \<open>(1, 1, 0)\<close> and zero wind (all six components zero), the air
  data after \<^verbatim>\<open>_update_velocity_data\<close> are \<open>Va = sqrt 2\<close>, \<open>alpha = 0\<close> and
  \<open>beta = arcsin (1 / sqrt 2)\<close>, which is \<open>pi / 4\<close> (45 degrees); \<^verbatim>\<open>_update_true_state\<close>
  copies them into the true state. The attitude plays no part, as the wind is zero; the
  example that follows takes the zero attitude, the quaternion \<open>(1, 0, 0, 0)\<close>.
\<close>

theorem symmetric_lateral_velocity:
  assumes "length (self_state self) = 13"
    and "self_state self ! 3 = 1" and "self_state self ! 4 = 1" and "self_state self ! 5 = 0"
    and "length (Quaternion2Rotation T (slice 6 10 (self_state self))) = 3"
  shows "(let self1 = update_velocity_data T self [0, 0, 0, 0, 0, 0];
              self2 = update_true_state T self1
          in self_Va self1 = sqrt 2 \<and> self_alpha self1 = 0
           \<and> self_beta self1 = arcsin (1 / sqrt 2) \<and> self_beta self1 = pi / 4
           \<and> msg_Va (self_true_state self2) = sqrt 2
           \<and> msg_alpha (self_true_state self2) = 0
           \<and> msg_beta (self_true_state self2) = arcsin (1 / sqrt 2))"
proof -
  have w: "length [0, 0, 0, 0, 0, 0 :: real] = 6" by simp
  have d: "dot row [0, 0, 0] = 0" for row by (rule dot_zero) simp
  from uvd_fields [OF assms(1) w assms(5)]
  have "self_Va (update_velocity_data T self [0, 0, 0, 0, 0, 0]) = sqrt 2
      \<and> self_alpha (update_velocity_data T self [0, 0, 0, 0, 0, 0]) = 0
      \<and> self_beta (update_velocity_data T self [0, 0, 0, 0, 0, 0]) = arcsin (1 / sqrt 2)"
    by (simp add: Let_def d assms(2,3,4))
  then show ?thesis by (simp add: Let_def uts_air arcsin_45)
qed

theorem symmetric_lateral_velocity_witness:
  "length (self_state (external_set_state mav_example [0, 0, - 100, 1, 1, 0, 1, 0, 0, 0, 0, 0, 0])) = 13
   \<and> self_state (external_set_state mav_example [0, 0, - 100, 1, 1, 0, 1, 0, 0, 0, 0, 0, 0]) ! 3 = 1
   \<and> self_state (external_set_state mav_example [0, 0, - 100, 1, 1, 0, 1, 0, 0, 0, 0, 0, 0]) ! 4 = 1
   \<and> self_state (external_set_state mav_example [0, 0, - 100, 1, 1, 0, 1, 0, 0, 0, 0, 0, 0]) ! 5 = 0
   \<and> length (Quaternion2Rotation rotations_example (slice 6 10 (self_state
         (external_set_state mav_example [0, 0, - 100, 1, 1, 0, 1, 0, 0, 0, 0, 0, 0])))) = 3
   \<and> self_Va (update_velocity_data rotations_example
         (external_set_state mav_example [0, 0, - 100, 1, 1, 0, 1, 0, 0, 0, 0, 0, 0])
         [0, 0, 0, 0, 0, 0]) = sqrt 2
   \<and> self_alpha (update_velocity_data rotations_example
         (external_set_state mav_example [0, 0, - 100, 1, 1, 0, 1, 0, 0, 0, 0, 0, 0])
         [0, 0, 0, 0, 0, 0]) = 0
   \<and> self_beta (update_velocity_data rotations_example
         (external_set_state mav_example [0, 0, - 100, 1, 1, 0, 1, 0, 0, 0, 0, 0, 0])
         [0, 0, 0, 0, 0, 0]) = pi / 4"
proof -
  let ?s = "external_set_state mav_example [0, 0, - 100, 1, 1, 0, 1, 0, 0, 0, 0, 0, 0]"
  have st: "self_state ?s = [0, 0, - 100, 1, 1, 0, 1, 0, 0, 0, 0, 0, 0]"
    by (simp add: external_set_state_def)
  have h1: "length (self_state ?s) = 13" by (simp add: st)
  have h2: "self_state ?s ! 3 = 1" by (simp add: st)
  have h3: "self_state ?s ! 4 = 1" by (simp add: st)
  have h4: "self_state ?s ! 5 = 0" by (simp add: st)
  have h5: "length (Quaternion2Rotation rotations_example (slice 6 10 (self_state ?s))) = 3"
    by (simp add: st slice_def Let_def rotations_example_def Quaternion2Rotation_example_def)
  from symmetric_lateral_velocity [OF h1 h2 h3 h4 h5] h1 h2 h3 h4 h5
  show ?thesis by (simp add: Let_def)
qed

text \<open>
  C9. For a fixed airspeed and throttle commands \<open>t1 \<le> t2\<close> between 0 and 1, the thrust
  at \<open>t1\<close> is at most the thrust at \<open>t2\<close>: the thrust is non-decreasing in the throttle
  (it is the same at both).
\<close>

theorem thrust_monotone_in_throttle:
  "0 \<le> t1 \<Longrightarrow> t1 \<le> t2 \<Longrightarrow> t2 \<le> 1 \<Longrightarrow>
     fst (motor_thrust_torque P Va t1) \<le> fst (motor_thrust_torque P Va t2)"
  by (simp add: motor_thrust_torque_def)

theorem thrust_monotone_in_throttle_witness:
  "(0::real) \<le> 1 / 4 \<and> (1 / 4 :: real) \<le> 3 / 4 \<and> (3 / 4 :: real) \<le> 1
   \<and> fst (motor_thrust_torque MAV_example 25 (1 / 4))
        \<le> fst (motor_thrust_torque MAV_example 25 (3 / 4))"
  using thrust_monotone_in_throttle [of "1 / 4" "3 / 4" MAV_example 25] by simp

text \<open>
  C10. After any sequence of calls of \<^verbatim>\<open>update\<close> on a freshly constructed object, with any
  wind arguments, the stored wind \<^verbatim>\<open>_wind\<close> is still the \<open>(0, 0, 0)\<close> of the constructor,
  and after at least one call the fields \<open>wn\<close> and \<open>we\<close> of the true state are 0. (Before
  the first call the true state is \<^verbatim>\<open>MsgState()\<close>, whose fields the class does not set.)
\<close>

theorem stored_wind_stays_zero:
  "self_wind (run P T (init P T msg Ts) calls) = [0, 0, 0]
   \<and> (calls \<noteq> [] \<longrightarrow>
        msg_wn (self_true_state (run P T (init P T msg Ts) calls)) = 0
        \<and> msg_we (self_true_state (run P T (init P T msg Ts) calls)) = 0)"
  using run_wn_we [of calls P T "init P T msg Ts"]
  by (simp add: run_wind init_wind)

theorem stored_wind_stays_zero_witness:
  "[(delta_example, [3, 4, 0, 1, 0, 0])] \<noteq> []
   \<and> self_wind (run MAV_example rotations_example mav_example
                   [(delta_example, [3, 4, 0, 1, 0, 0])]) = [0, 0, 0]
   \<and> msg_wn (self_true_state (run MAV_example rotations_example mav_example
                   [(delta_example, [3, 4, 0, 1, 0, 0])])) = 0
   \<and> msg_we (self_true_state (run MAV_example rotations_example mav_example
                   [(delta_example, [3, 4, 0, 1, 0, 0])])) = 0"
  using stored_wind_stays_zero [of MAV_example rotations_example MsgState_example "0.01"
          "[(delta_example, [3, 4, 0, 1, 0, 0])]"]
  by (simp add: mav_example_def)

end
